theory Spec2Isabelle
  imports Main "HOL-Library.Word"
begin

unbundle bit_operations_syntax

section \<open>Machine types\<close>

text \<open>
  The driver is C for a 32-bit target: \<open>u8\<close> is an 8-bit word, \<open>u32\<close> and \<open>int\<close> are
  32-bit words (\<open>int\<close> read in two's complement), \<open>unsigned long\<close> (the counters of
  \<open>net_device_stats\<close>) is a 32-bit word. Arithmetic on words wraps around as the C does.
\<close>

type_synonym u8 = "8 word"
type_synonym u32 = "32 word"
type_synonym cint = "32 word"
type_synonym ulong = "32 word"

section \<open>The chip's instruction set and register map (the macros of the source)\<close>

definition INSTRUCTION_WRITE :: u8 where "INSTRUCTION_WRITE = 0x02"
definition INSTRUCTION_READ :: u8 where "INSTRUCTION_READ = 0x03"
definition INSTRUCTION_BIT_MODIFY :: u8 where "INSTRUCTION_BIT_MODIFY = 0x05"
definition INSTRUCTION_RESET :: u8 where "INSTRUCTION_RESET = 0xC0"

definition INSTRUCTION_LOAD_TXB :: "cint \<Rightarrow> cint" where
  "INSTRUCTION_LOAD_TXB n = 0x40 + 2 * n"

definition INSTRUCTION_READ_RXB :: "cint \<Rightarrow> cint" where
  "INSTRUCTION_READ_RXB n = (if n = 0 then 0x90 else 0x94)"

definition INSTRUCTION_RTS :: "cint \<Rightarrow> cint" where
  "INSTRUCTION_RTS n = 0x80 OR (n AND 0x07)"

definition CANSTAT :: u8 where "CANSTAT = 0x0e"
definition CANCTRL :: u8 where "CANCTRL = 0x0f"
definition CANCTRL_REQOP_SLEEP :: u8 where "CANCTRL_REQOP_SLEEP = 0x20"


definition CANINTF :: u8 where "CANINTF = 0x2c"
definition CANINTF_MERRF :: u8 where "CANINTF_MERRF = 0x80"
definition CANINTF_WAKIF :: u8 where "CANINTF_WAKIF = 0x40"
definition CANINTF_ERRIF :: u8 where "CANINTF_ERRIF = 0x20"
definition CANINTF_TX2IF :: u8 where "CANINTF_TX2IF = 0x10"
definition CANINTF_TX1IF :: u8 where "CANINTF_TX1IF = 0x08"
definition CANINTF_TX0IF :: u8 where "CANINTF_TX0IF = 0x04"
definition CANINTF_RX1IF :: u8 where "CANINTF_RX1IF = 0x02"
definition CANINTF_RX0IF :: u8 where "CANINTF_RX0IF = 0x01"
definition CANINTF_RX :: u8 where "CANINTF_RX = CANINTF_RX0IF OR CANINTF_RX1IF"
definition CANINTF_TX :: u8 where
  "CANINTF_TX = CANINTF_TX2IF OR CANINTF_TX1IF OR CANINTF_TX0IF"
definition CANINTF_ERR :: u8 where "CANINTF_ERR = CANINTF_ERRIF"

definition EFLG :: u8 where "EFLG = 0x2d"
definition EFLG_EWARN :: u8 where "EFLG_EWARN = 0x01"
definition EFLG_RXWAR :: u8 where "EFLG_RXWAR = 0x02"
definition EFLG_TXWAR :: u8 where "EFLG_TXWAR = 0x04"
definition EFLG_RXEP :: u8 where "EFLG_RXEP = 0x08"
definition EFLG_TXEP :: u8 where "EFLG_TXEP = 0x10"
definition EFLG_TXBO :: u8 where "EFLG_TXBO = 0x20"
definition EFLG_RX0OVR :: u8 where "EFLG_RX0OVR = 0x40"
definition EFLG_RX1OVR :: u8 where "EFLG_RX1OVR = 0x80"

definition SIDH_SHIFT :: nat where "SIDH_SHIFT = 3"
definition SIDL_SID_MASK :: u32 where "SIDL_SID_MASK = 7"
definition SIDL_SID_SHIFT :: nat where "SIDL_SID_SHIFT = 5"
definition SIDL_EXIDE_SHIFT :: nat where "SIDL_EXIDE_SHIFT = 3"
definition SIDL_EID_SHIFT :: nat where "SIDL_EID_SHIFT = 16"
definition SIDL_EID_MASK :: u32 where "SIDL_EID_MASK = 3"
definition DLC_RTR_SHIFT :: nat where "DLC_RTR_SHIFT = 6"

definition TXBCTRL_OFF :: nat where "TXBCTRL_OFF = 0"
definition TXBSIDH_OFF :: nat where "TXBSIDH_OFF = 1"
definition TXBSIDL_OFF :: nat where "TXBSIDL_OFF = 2"
definition TXBEID8_OFF :: nat where "TXBEID8_OFF = 3"
definition TXBEID0_OFF :: nat where "TXBEID0_OFF = 4"
definition TXBDLC_OFF :: nat where "TXBDLC_OFF = 5"
definition TXBDAT_OFF :: nat where "TXBDAT_OFF = 6"

definition RXBSIDH_SHIFT :: nat where "RXBSIDH_SHIFT = 3"
definition RXBSIDL_IDE :: u8 where "RXBSIDL_IDE = 0x08"
definition RXBSIDL_SRR :: u8 where "RXBSIDL_SRR = 0x10"
definition RXBSIDL_EID :: u8 where "RXBSIDL_EID = 3"
definition RXBSIDL_SHIFT :: nat where "RXBSIDL_SHIFT = 5"
definition RXBDLC_LEN_MASK :: u8 where "RXBDLC_LEN_MASK = 0x0f"
definition RXBDLC_RTR :: u8 where "RXBDLC_RTR = 0x40"

definition RXBCTRL_OFF :: nat where "RXBCTRL_OFF = 0"
definition RXBSIDH_OFF :: nat where "RXBSIDH_OFF = 1"
definition RXBSIDL_OFF :: nat where "RXBSIDL_OFF = 2"
definition RXBEID8_OFF :: nat where "RXBEID8_OFF = 3"
definition RXBEID0_OFF :: nat where "RXBEID0_OFF = 4"
definition RXBDLC_OFF :: nat where "RXBDLC_OFF = 5"
definition RXBDAT_OFF :: nat where "RXBDAT_OFF = 6"

text \<open>\<open>GET_BYTE(val, byte)\<close> and \<open>SET_BYTE(val, byte)\<close>, on 32-bit operands.\<close>

definition GET_BYTE :: "u32 \<Rightarrow> nat \<Rightarrow> u32" where
  "GET_BYTE val byte = drop_bit (byte * 8) val AND 0xff"

definition SET_BYTE :: "u32 \<Rightarrow> nat \<Rightarrow> u32" where
  "SET_BYTE val byte = push_bit (byte * 8) (val AND 0xff)"

definition CAN_FRAME_MAX_DATA_LEN :: nat where "CAN_FRAME_MAX_DATA_LEN = 8"
definition SPI_TRANSFER_BUF_LEN :: nat where
  "SPI_TRANSFER_BUF_LEN = 6 + CAN_FRAME_MAX_DATA_LEN"

definition GPIO_MISO :: nat where "GPIO_MISO = 0"
definition GPIO_MOSI :: nat where "GPIO_MOSI = 1"
definition GPIO_CLK :: nat where "GPIO_CLK = 2"
definition GPIO_CS :: nat where "GPIO_CS = 3"

section \<open>What the driver takes from the kernel headers\<close>

text \<open>
  Modelled from the spec: the frame abstraction of the network stack (an 11-bit standard
  or 29-bit extended identifier, the extended and remote flags, a data length code and
  eight data bytes), the link states in their order of severity and the error-notification
  markers are declared in the kernel's CAN headers, which are not part of the source.
  The masks follow the spec's identifier widths; the flag bits and the error classes
  carry the values of the kernel interface.
\<close>

definition CAN_EFF_FLAG :: u32 where "CAN_EFF_FLAG = 0x80000000"
definition CAN_RTR_FLAG :: u32 where "CAN_RTR_FLAG = 0x40000000"
definition CAN_ERR_FLAG :: u32 where "CAN_ERR_FLAG = 0x20000000"
definition CAN_SFF_MASK :: u32 where "CAN_SFF_MASK = 0x000007FF"
definition CAN_EFF_MASK :: u32 where "CAN_EFF_MASK = 0x1FFFFFFF"

definition CAN_ERR_DLC :: u8 where "CAN_ERR_DLC = 8"
definition CAN_ERR_CRTL :: cint where "CAN_ERR_CRTL = 0x00000004"
definition CAN_ERR_BUSOFF :: cint where "CAN_ERR_BUSOFF = 0x00000040"
definition CAN_ERR_CRTL_RX_OVERFLOW :: cint where "CAN_ERR_CRTL_RX_OVERFLOW = 0x01"
definition CAN_ERR_CRTL_RX_WARNING :: cint where "CAN_ERR_CRTL_RX_WARNING = 0x04"
definition CAN_ERR_CRTL_TX_WARNING :: cint where "CAN_ERR_CRTL_TX_WARNING = 0x08"
definition CAN_ERR_CRTL_RX_PASSIVE :: cint where "CAN_ERR_CRTL_RX_PASSIVE = 0x10"
definition CAN_ERR_CRTL_TX_PASSIVE :: cint where "CAN_ERR_CRTL_TX_PASSIVE = 0x20"

definition CAN_CTRLMODE_3_SAMPLES :: u32 where "CAN_CTRLMODE_3_SAMPLES = 0x04"

datatype can_state =
    CAN_STATE_ERROR_ACTIVE
  | CAN_STATE_ERROR_WARNING
  | CAN_STATE_ERROR_PASSIVE
  | CAN_STATE_BUS_OFF
  | CAN_STATE_STOPPED
  | CAN_STATE_SLEEPING

text \<open>The enumerators' values, which the driver compares with \<open>>=\<close> and \<open><=\<close>.\<close>

fun can_state_val :: "can_state \<Rightarrow> nat" where
  "can_state_val CAN_STATE_ERROR_ACTIVE = 0"
| "can_state_val CAN_STATE_ERROR_WARNING = 1"
| "can_state_val CAN_STATE_ERROR_PASSIVE = 2"
| "can_state_val CAN_STATE_BUS_OFF = 3"
| "can_state_val CAN_STATE_STOPPED = 4"
| "can_state_val CAN_STATE_SLEEPING = 5"

datatype netdev_tx = NETDEV_TX_OK | NETDEV_TX_BUSY

datatype can_led_event = CAN_LED_EVENT_RX | CAN_LED_EVENT_TX

record can_frame =
  can_id :: u32
  can_dlc :: u8
  data :: "u8 list"

text \<open>
  A socket buffer is modelled by the frame it carries. \<open>alloc_can_skb\<close> hands out a buffer
  whose frame is zeroed; \<open>alloc_can_err_skb\<close> one that is marked as an error frame.
\<close>

type_synonym sk_buff = can_frame

definition zero_frame :: can_frame where
  "zero_frame = \<lparr>can_id = 0, can_dlc = 0, data = replicate 8 0\<rparr>"

definition err_frame :: can_frame where
  "err_frame = \<lparr>can_id = CAN_ERR_FLAG, can_dlc = CAN_ERR_DLC, data = replicate 8 0\<rparr>"

section \<open>The driver's state and its environment\<close>

text \<open>
  Everything the driver does to the outside is an event of a trace, in the order of the
  calls: the levels it drives on the lines, the levels it samples, the delays, the lines
  \<open>mcp2515_spi_trans\<close> prints, and the calls into the network stack.
\<close>

datatype event =
    Gpio_set_value nat bool
  | Gpio_get_value nat bool
  | Udelay nat
  | Printk_write "u8 list"
  | Printk_read "u8 list"
  | Netif_rx_ni can_frame
  | Netdev_err
  | Can_led_event can_led_event
  | Can_bus_off
  | Can_get_echo_skb nat
  | Netif_wake_queue
  | Netif_stop_queue
  | Queue_work_tx
  | Kfree_skb

text \<open>
  \<open>mcp2515_priv\<close>, with the fields of \<open>can_priv\<close>, of its bit timing and statistics, and
  of the device's \<open>net_device_stats\<close> that the modelled functions touch. The two wire
  buffers hold \<open>SPI_TRANSFER_BUF_LEN\<close> bytes each (predicate \<open>wf_priv\<close>). What the
  environment decides is read from two oracles: \<open>gpio_in n\<close> is the level of the input
  line at the driver's \<open>n\<close>-th sample, \<open>alloc_ok n\<close> tells whether the \<open>n\<close>-th buffer
  allocation succeeds.
\<close>

record mcp2515_priv =
  can_state :: can_state
  can_restart_ms :: cint
  can_ctrlmode :: u32
  bt_sjw :: u32
  bt_brp :: u32
  bt_phase_seg1 :: u32
  bt_phase_seg2 :: u32
  bt_prop_seg :: u32
  error_warning :: u32
  error_passive :: u32
  spi_tx_buf :: "u8 list"
  spi_rx_buf :: "u8 list"
  tx_skb :: "sk_buff option"
  tx_len :: cint
  force_quit :: cint
  rx_packets :: ulong
  rx_bytes :: ulong
  rx_dropped :: ulong
  rx_over_errors :: ulong
  rx_errors :: ulong
  tx_packets :: ulong
  tx_bytes :: ulong
  tx_dropped :: ulong
  gpio_in :: "nat \<Rightarrow> bool"
  gpio_cnt :: nat
  alloc_ok :: "nat \<Rightarrow> bool"
  alloc_cnt :: nat
  trace :: "event list"

definition wf_priv :: "mcp2515_priv \<Rightarrow> bool" where
  "wf_priv s \<longleftrightarrow>
     length (spi_tx_buf s) = SPI_TRANSFER_BUF_LEN \<and>
     length (spi_rx_buf s) = SPI_TRANSFER_BUF_LEN"

definition emit :: "event \<Rightarrow> mcp2515_priv \<Rightarrow> mcp2515_priv" where
  "emit e s = s\<lparr>trace := trace s @ [e]\<rparr>"

definition gpio_set_value :: "nat \<Rightarrow> bool \<Rightarrow> mcp2515_priv \<Rightarrow> mcp2515_priv" where
  "gpio_set_value pin v s = emit (Gpio_set_value pin v) s"

definition gpio_get_value :: "nat \<Rightarrow> mcp2515_priv \<Rightarrow> bool \<times> mcp2515_priv" where
  "gpio_get_value pin s =
     (let v = gpio_in s (gpio_cnt s)
      in (v, emit (Gpio_get_value pin v) (s\<lparr>gpio_cnt := Suc (gpio_cnt s)\<rparr>)))"

definition udelay :: "nat \<Rightarrow> mcp2515_priv \<Rightarrow> mcp2515_priv" where
  "udelay n s = emit (Udelay n) s"

definition alloc_skb :: "mcp2515_priv \<Rightarrow> bool \<times> mcp2515_priv" where
  "alloc_skb s = (alloc_ok s (alloc_cnt s), s\<lparr>alloc_cnt := Suc (alloc_cnt s)\<rparr>)"

section \<open>Line transport: \<open>mcp2515_spi_trans\<close>\<close>

text \<open>
  The inner loop, \<open>for (j = 0; j < 8; j++)\<close>. Its body does not read \<open>j\<close>, so the model
  counts the iterations that remain. \<open>data_out\<close> is tested against \<open>0x80\<close> in every
  iteration and is not changed by the loop; \<open>data_in\<close> is shifted left and takes the
  sampled level as its lowest bit.
\<close>

fun spi_bit_loop :: "nat \<Rightarrow> u8 \<Rightarrow> u8 \<Rightarrow> mcp2515_priv \<Rightarrow> u8 \<times> mcp2515_priv" where
  "spi_bit_loop 0 data_out data_in s = (data_in, s)"
| "spi_bit_loop (Suc n) data_out data_in s =
     (let s1 = gpio_set_value GPIO_CLK False s;
          s2 = (if data_out AND 0x80 \<noteq> 0 then gpio_set_value GPIO_MOSI True s1
                else gpio_set_value GPIO_MOSI False s1);
          s3 = gpio_set_value GPIO_CLK True s2;
          data_in1 = push_bit 1 data_in
      in case gpio_get_value GPIO_MISO s3 of
           (v, s4) \<Rightarrow>
             spi_bit_loop n data_out (if v then data_in1 OR 0x01 else data_in1) s4)"

text \<open>One iteration of the outer loop, for index \<open>i\<close>.\<close>

definition spi_byte :: "nat \<Rightarrow> mcp2515_priv \<Rightarrow> mcp2515_priv" where
  "spi_byte i s =
     (case spi_bit_loop 8 (spi_tx_buf s ! i) 0 s of
        (data_in, s') \<Rightarrow> s'\<lparr>spi_rx_buf := (spi_rx_buf s')[i := data_in]\<rparr>)"

text \<open>The outer loop, \<open>for (i = 0; i < len; i++)\<close>: \<open>n\<close> iterations remain, the next has index \<open>i\<close>.\<close>

fun spi_byte_loop :: "nat \<Rightarrow> nat \<Rightarrow> mcp2515_priv \<Rightarrow> mcp2515_priv" where
  "spi_byte_loop 0 i s = s"
| "spi_byte_loop (Suc n) i s = spi_byte_loop n (Suc i) (spi_byte i s)"

text \<open>
  The transfer, then the two lines it prints: both print loops read \<open>spi_tx_buf\<close>.
  The function returns 0 on every path, so the model returns the state only.
\<close>

definition mcp2515_spi_trans :: "mcp2515_priv \<Rightarrow> nat \<Rightarrow> mcp2515_priv" where
  "mcp2515_spi_trans s len =
     (let s1 = spi_byte_loop len 0 s;
          s2 = emit (Printk_write (take len (spi_tx_buf s1))) s1
      in emit (Printk_read (take len (spi_tx_buf s2))) s2)"

section \<open>Register access\<close>

definition mcp2515_read_reg :: "mcp2515_priv \<Rightarrow> u8 \<Rightarrow> u8 \<times> mcp2515_priv" where
  "mcp2515_read_reg s reg =
     (let s1 = s\<lparr>spi_tx_buf := (spi_tx_buf s)[0 := INSTRUCTION_READ, 1 := reg]\<rparr>;
          s2 = gpio_set_value GPIO_CS False s1;
          s3 = mcp2515_spi_trans s2 3;
          s4 = udelay 1 s3;
          s5 = gpio_set_value GPIO_CS True s4
      in (spi_rx_buf s5 ! 2, s5))"

definition mcp2515_read_2regs :: "mcp2515_priv \<Rightarrow> u8 \<Rightarrow> u8 \<times> u8 \<times> mcp2515_priv" where
  "mcp2515_read_2regs s reg =
     (let s1 = s\<lparr>spi_tx_buf := (spi_tx_buf s)[0 := INSTRUCTION_READ, 1 := reg]\<rparr>;
          s2 = gpio_set_value GPIO_CS False s1;
          s3 = mcp2515_spi_trans s2 4;
          s4 = udelay 1 s3;
          s5 = gpio_set_value GPIO_CS True s4
      in (spi_rx_buf s5 ! 2, spi_rx_buf s5 ! 3, s5))"

definition mcp2515_write_reg :: "mcp2515_priv \<Rightarrow> u8 \<Rightarrow> u8 \<Rightarrow> mcp2515_priv" where
  "mcp2515_write_reg s reg val =
     (let s1 = s\<lparr>spi_tx_buf := (spi_tx_buf s)[0 := INSTRUCTION_WRITE, 1 := reg, 2 := val]\<rparr>;
          s2 = gpio_set_value GPIO_CS False s1;
          s3 = mcp2515_spi_trans s2 3;
          s4 = udelay 1 s3
      in gpio_set_value GPIO_CS True s4)"

definition mcp2515_write_bits :: "mcp2515_priv \<Rightarrow> u8 \<Rightarrow> u8 \<Rightarrow> u8 \<Rightarrow> mcp2515_priv" where
  "mcp2515_write_bits s reg msk val =
     (let s1 = s\<lparr>spi_tx_buf :=
                  (spi_tx_buf s)[0 := INSTRUCTION_BIT_MODIFY, 1 := reg, 2 := msk, 3 := val]\<rparr>;
          s2 = gpio_set_value GPIO_CS False s1;
          s3 = mcp2515_spi_trans s2 4;
          s4 = udelay 1 s3
      in gpio_set_value GPIO_CS True s4)"

section \<open>Frame codec\<close>

text \<open>\<open>memcpy(dst, src, n)\<close> on byte arrays modelled as lists: the first \<open>n\<close> bytes of \<open>dst\<close> are replaced.\<close>

definition memcpy :: "u8 list \<Rightarrow> u8 list \<Rightarrow> nat \<Rightarrow> u8 list" where
  "memcpy dst src n = take n src @ drop n dst"

text \<open>
  The register image that \<open>mcp2515_hw_tx\<close> builds in its local \<open>buf\<close>: the six header
  bytes, then \<open>can_dlc\<close> data bytes. The bytes of \<open>buf\<close> behind them stay unwritten and
  are never read. The result is \<open>None\<close> where the \<open>memcpy\<close> would run past \<open>frame->data\<close>
  (and past \<open>buf\<close>), that is for a \<open>can_dlc\<close> above 8.
\<close>

definition mcp2515_hw_tx_buf :: "can_frame \<Rightarrow> cint \<Rightarrow> u8 list option" where
  "mcp2515_hw_tx_buf frame tx_buf_idx =
     (let exide = (if can_id frame AND CAN_EFF_FLAG \<noteq> 0 then 1 else 0) :: u32;
          sid = (if exide \<noteq> 0 then drop_bit 18 (can_id frame AND CAN_EFF_MASK)
                 else can_id frame AND CAN_SFF_MASK);
          eid = can_id frame AND CAN_EFF_MASK;
          rtr = (if can_id frame AND CAN_RTR_FLAG \<noteq> 0 then 1 else 0) :: u32;
          hdr = [ucast (INSTRUCTION_LOAD_TXB tx_buf_idx),
                 ucast (drop_bit SIDH_SHIFT sid),
                 ucast (push_bit SIDL_SID_SHIFT (sid AND SIDL_SID_MASK) OR
                        push_bit SIDL_EXIDE_SHIFT exide OR
                        (drop_bit SIDL_EID_SHIFT eid AND SIDL_EID_MASK)),
                 ucast (GET_BYTE eid 1),
                 ucast (GET_BYTE eid 0),
                 ucast (push_bit DLC_RTR_SHIFT rtr OR ucast (can_dlc frame))] :: u8 list
      in if unat (can_dlc frame) \<le> CAN_FRAME_MAX_DATA_LEN \<and>
            unat (can_dlc frame) \<le> length (data frame)
         then Some (hdr @ take (unat (can_dlc frame)) (data frame))
         else None)"

definition mcp2515_hw_tx_frame ::
    "mcp2515_priv \<Rightarrow> u8 list \<Rightarrow> nat \<Rightarrow> cint \<Rightarrow> mcp2515_priv" where
  "mcp2515_hw_tx_frame s buf len tx_buf_idx =
     mcp2515_spi_trans
       (s\<lparr>spi_tx_buf := memcpy (spi_tx_buf s) buf (TXBDAT_OFF + len)\<rparr>)
       (TXBDAT_OFF + len)"

definition mcp2515_hw_tx :: "mcp2515_priv \<Rightarrow> can_frame \<Rightarrow> cint \<Rightarrow> mcp2515_priv option" where
  "mcp2515_hw_tx s frame tx_buf_idx =
     (case mcp2515_hw_tx_buf frame tx_buf_idx of
        None \<Rightarrow> None
      | Some buf \<Rightarrow>
          (let s1 = mcp2515_hw_tx_frame s buf (unat (can_dlc frame)) tx_buf_idx;
               s2 = s1\<lparr>spi_tx_buf :=
                      (spi_tx_buf s1)[0 := ucast (INSTRUCTION_RTS (push_bit (unat tx_buf_idx) 1))]\<rparr>
           in Some (mcp2515_spi_trans s2 1)))"

text \<open>
  Modelled from the spec: \<open>get_can_dlc\<close> is a macro of the kernel's CAN headers, absent
  from the source. The spec says of it that the data length code is clamped against the
  maximum of 8 before it is used as a copy length.
\<close>

definition get_can_dlc :: "u8 \<Rightarrow> u8" where
  "get_can_dlc i = min i 8"

definition mcp2515_hw_rx_frame :: "mcp2515_priv \<Rightarrow> cint \<Rightarrow> u8 list \<times> mcp2515_priv" where
  "mcp2515_hw_rx_frame s buf_idx =
     (let s1 = s\<lparr>spi_tx_buf :=
                  (spi_tx_buf s)[RXBCTRL_OFF := ucast (INSTRUCTION_READ_RXB buf_idx)]\<rparr>;
          s2 = mcp2515_spi_trans s1 SPI_TRANSFER_BUF_LEN
      in (take SPI_TRANSFER_BUF_LEN (spi_rx_buf s2), s2))"

text \<open>
  The decoding part of \<open>mcp2515_hw_rx\<close>: from the 14-byte image \<open>buf\<close> to the frame of the
  freshly allocated (zeroed) buffer. The bytes of \<open>buf\<close> are promoted to 32 bits before
  they are shifted.
\<close>

definition mcp2515_hw_rx_decode :: "u8 list \<Rightarrow> can_frame" where
  "mcp2515_hw_rx_decode buf =
     (let cid =
            (if buf ! RXBSIDL_OFF AND RXBSIDL_IDE \<noteq> 0 then
               (let ext = CAN_EFF_FLAG OR
                      (SET_BYTE (ucast (buf ! RXBSIDL_OFF AND RXBSIDL_EID)) 2 OR
                       SET_BYTE (ucast (buf ! RXBEID8_OFF)) 1 OR
                       SET_BYTE (ucast (buf ! RXBEID0_OFF)) 0 OR
                       push_bit 18
                         (push_bit RXBSIDH_SHIFT (ucast (buf ! RXBSIDH_OFF)) OR
                          drop_bit RXBSIDL_SHIFT (ucast (buf ! RXBSIDL_OFF))))
                in if buf ! RXBDLC_OFF AND RXBDLC_RTR \<noteq> 0 then ext OR CAN_RTR_FLAG else ext)
             else
               (let std = push_bit RXBSIDH_SHIFT (ucast (buf ! RXBSIDH_OFF)) OR
                          drop_bit RXBSIDL_SHIFT (ucast (buf ! RXBSIDL_OFF))
                in if buf ! RXBSIDL_OFF AND RXBSIDL_SRR \<noteq> 0 then std OR CAN_RTR_FLAG else std));
          dlc = get_can_dlc (buf ! RXBDLC_OFF AND RXBDLC_LEN_MASK)
      in zero_frame\<lparr>can_id := cid, can_dlc := dlc,
           data := memcpy (data zero_frame) (drop RXBDAT_OFF buf) (unat dlc)\<rparr>)"

definition mcp2515_hw_rx :: "mcp2515_priv \<Rightarrow> cint \<Rightarrow> mcp2515_priv" where
  "mcp2515_hw_rx s buf_idx =
     (case alloc_skb s of
        (ok, s1) \<Rightarrow>
          if \<not> ok then s1\<lparr>rx_dropped := rx_dropped s1 + 1\<rparr>
          else
            (case mcp2515_hw_rx_frame s1 buf_idx of
               (buf, s2) \<Rightarrow>
                 (let frame = mcp2515_hw_rx_decode buf;
                      s3 = s2\<lparr>rx_packets := rx_packets s2 + 1,
                              rx_bytes := rx_bytes s2 + ucast (can_dlc frame)\<rparr>;
                      s4 = emit (Can_led_event CAN_LED_EVENT_RX) s3
                  in emit (Netif_rx_ni frame) s4)))"

definition mcp2515_hw_sleep :: "mcp2515_priv \<Rightarrow> mcp2515_priv" where
  "mcp2515_hw_sleep s = mcp2515_write_reg s CANCTRL CANCTRL_REQOP_SLEEP"

section \<open>Transmit submission\<close>

text \<open>
  \<open>can_dropped_invalid_skb\<close> is the kernel's; \<open>invalid\<close> stands for its test of the
  buffer. When the test holds the kernel frees the buffer and counts a dropped frame.
\<close>

definition can_dropped_invalid_skb ::
    "(sk_buff \<Rightarrow> bool) \<Rightarrow> sk_buff \<Rightarrow> mcp2515_priv \<Rightarrow> bool \<times> mcp2515_priv" where
  "can_dropped_invalid_skb invalid skb s =
     (if invalid skb then (True, (emit Kfree_skb s)\<lparr>tx_dropped := tx_dropped s + 1\<rparr>)
      else (False, s))"

definition mcp2515_hard_start_xmit ::
    "(sk_buff \<Rightarrow> bool) \<Rightarrow> sk_buff \<Rightarrow> mcp2515_priv \<Rightarrow> netdev_tx \<times> mcp2515_priv" where
  "mcp2515_hard_start_xmit invalid skb s =
     (if tx_skb s \<noteq> None \<or> tx_len s \<noteq> 0 then (NETDEV_TX_BUSY, s)
      else
        (case can_dropped_invalid_skb invalid skb s of
           (dropped, s1) \<Rightarrow>
             if dropped then (NETDEV_TX_OK, s1)
             else
               (let s2 = emit Netif_stop_queue s1;
                    s3 = s2\<lparr>tx_skb := Some skb\<rparr>
                in (NETDEV_TX_OK, emit Queue_work_tx s3))))"

section \<open>Link configuration\<close>


section \<open>The interrupt handler \<open>mcp2515_can_ist\<close>\<close>

text \<open>The clear mask of one pass, from the masked interrupt flags.\<close>

definition ist_clear_intf :: "u8 \<Rightarrow> u8" where
  "ist_clear_intf intf =
     (if intf AND (CANINTF_ERR OR CANINTF_TX) \<noteq> 0
      then 0 OR (intf AND (CANINTF_ERR OR CANINTF_TX)) else 0)"

text \<open>
  ``Update can state'': the \<open>if\<close> chain over the error flags, with the values it leaves in
  \<open>new_state\<close>, \<open>can_id\<close> and \<open>data1\<close> (the last two start at 0).
\<close>

definition ist_new_state :: "u8 \<Rightarrow> can_state \<times> cint \<times> cint" where
  "ist_new_state eflag =
     (if eflag AND EFLG_TXBO \<noteq> 0 then (CAN_STATE_BUS_OFF, 0 OR CAN_ERR_BUSOFF, 0)
      else if eflag AND EFLG_TXEP \<noteq> 0 then
        (CAN_STATE_ERROR_PASSIVE, 0 OR CAN_ERR_CRTL, 0 OR CAN_ERR_CRTL_TX_PASSIVE)
      else if eflag AND EFLG_RXEP \<noteq> 0 then
        (CAN_STATE_ERROR_PASSIVE, 0 OR CAN_ERR_CRTL, 0 OR CAN_ERR_CRTL_RX_PASSIVE)
      else if eflag AND EFLG_TXWAR \<noteq> 0 then
        (CAN_STATE_ERROR_WARNING, 0 OR CAN_ERR_CRTL, 0 OR CAN_ERR_CRTL_TX_WARNING)
      else if eflag AND EFLG_RXWAR \<noteq> 0 then
        (CAN_STATE_ERROR_WARNING, 0 OR CAN_ERR_CRTL, 0 OR CAN_ERR_CRTL_RX_WARNING)
      else (CAN_STATE_ERROR_ACTIVE, 0, 0))"

text \<open>
  ``Update can state statistics'': the \<open>switch\<close> over the old state. The case for
  \<open>CAN_STATE_ERROR_ACTIVE\<close> has no \<open>break\<close> and runs on into the case for
  \<open>CAN_STATE_ERROR_WARNING\<close>.
\<close>

definition ist_case_error_warning :: "mcp2515_priv \<Rightarrow> can_state \<Rightarrow> mcp2515_priv" where
  "ist_case_error_warning s new_state =
     (if can_state_val new_state \<ge> can_state_val CAN_STATE_ERROR_PASSIVE \<and>
         can_state_val new_state \<le> can_state_val CAN_STATE_BUS_OFF
      then s\<lparr>error_passive := error_passive s + 1\<rparr> else s)"

definition ist_case_error_active :: "mcp2515_priv \<Rightarrow> can_state \<Rightarrow> mcp2515_priv" where
  "ist_case_error_active s new_state =
     ist_case_error_warning
       (if can_state_val new_state \<ge> can_state_val CAN_STATE_ERROR_WARNING \<and>
           can_state_val new_state \<le> can_state_val CAN_STATE_BUS_OFF
        then s\<lparr>error_warning := error_warning s + 1\<rparr> else s)
       new_state"

definition ist_update_stats :: "mcp2515_priv \<Rightarrow> can_state \<Rightarrow> mcp2515_priv" where
  "ist_update_stats s new_state =
     (case can_state s of
        CAN_STATE_ERROR_ACTIVE \<Rightarrow> ist_case_error_active s new_state
      | CAN_STATE_ERROR_WARNING \<Rightarrow> ist_case_error_warning s new_state
      | _ \<Rightarrow> s)"

definition mcp2515_error_skb :: "mcp2515_priv \<Rightarrow> cint \<Rightarrow> cint \<Rightarrow> mcp2515_priv" where
  "mcp2515_error_skb s cid data1 =
     (case alloc_skb s of
        (ok, s1) \<Rightarrow>
          if ok then
            emit (Netif_rx_ni (err_frame\<lparr>can_id := can_id err_frame OR cid,
                                         data := (data err_frame)[1 := ucast data1]\<rparr>)) s1
          else emit Netdev_err s1)"

text \<open>The block guarded by \<open>intf & CANINTF_ERRIF\<close>: overflow counters, then the error frame.\<close>

definition ist_error_interrupt ::
    "mcp2515_priv \<Rightarrow> u8 \<Rightarrow> u8 \<Rightarrow> cint \<Rightarrow> cint \<Rightarrow> mcp2515_priv" where
  "ist_error_interrupt s intf eflag cid data1 =
     (if intf AND CANINTF_ERRIF \<noteq> 0 then
        (if eflag AND (EFLG_RX0OVR OR EFLG_RX1OVR) \<noteq> 0 then
           (let s1 = (if eflag AND EFLG_RX0OVR \<noteq> 0
                      then s\<lparr>rx_over_errors := rx_over_errors s + 1,
                             rx_errors := rx_errors s + 1\<rparr> else s);
                s2 = (if eflag AND EFLG_RX1OVR \<noteq> 0
                      then s1\<lparr>rx_over_errors := rx_over_errors s1 + 1,
                              rx_errors := rx_errors s1 + 1\<rparr> else s1)
            in mcp2515_error_skb s2 (cid OR CAN_ERR_CRTL) (data1 OR CAN_ERR_CRTL_RX_OVERFLOW))
         else mcp2515_error_skb s cid data1)
      else s)"

text \<open>The block guarded by \<open>intf & CANINTF_TX\<close>.\<close>

definition ist_tx_complete :: "mcp2515_priv \<Rightarrow> mcp2515_priv" where
  "ist_tx_complete s =
     (let s1 = s\<lparr>tx_packets := tx_packets s + 1,
                 tx_bytes := tx_bytes s + (tx_len s - 1)\<rparr>;
          s2 = emit (Can_led_event CAN_LED_EVENT_TX) s1;
          s3 = (if tx_len s2 \<noteq> 0 then (emit (Can_get_echo_skb 0) s2)\<lparr>tx_len := 0\<rparr> else s2)
      in emit Netif_wake_queue s3)"

text \<open>
  One pass of the \<open>while\<close> loop after the two registers have been read: \<open>intf0\<close> and
  \<open>eflag\<close> are the bytes read. The result tells whether the loop is left (\<open>break\<close>).
\<close>

definition mcp2515_can_ist_body :: "mcp2515_priv \<Rightarrow> u8 \<Rightarrow> u8 \<Rightarrow> bool \<times> mcp2515_priv" where
  "mcp2515_can_ist_body s intf0 eflag =
     (let intf = intf0 AND (CANINTF_RX OR CANINTF_TX OR CANINTF_ERR);
          s1 = (if intf AND CANINTF_RX0IF \<noteq> 0 then mcp2515_hw_rx s 0 else s);
          s2 = (if intf AND CANINTF_RX1IF \<noteq> 0 then mcp2515_hw_rx s1 1 else s1);
          clear_intf = ist_clear_intf intf;
          s3 = (if clear_intf \<noteq> 0 then mcp2515_write_bits s2 CANINTF clear_intf 0x00 else s2);
          s4 = (if eflag \<noteq> 0 then mcp2515_write_bits s3 EFLG eflag 0x00 else s3)
      in case ist_new_state eflag of
           (new_state, cid, data1) \<Rightarrow>
             (let s5 = (ist_update_stats s4 new_state)\<lparr>can_state := new_state\<rparr>;
                  s6 = ist_error_interrupt s5 intf eflag cid data1
              in if can_state s6 = CAN_STATE_BUS_OFF \<and> can_restart_ms s6 = 0 then
                   (True, mcp2515_hw_sleep (emit Can_bus_off (s6\<lparr>force_quit := 1\<rparr>)))
                 else if intf = 0 then (True, s6)
                 else (False, if intf AND CANINTF_TX \<noteq> 0 then ist_tx_complete s6 else s6)))"



section \<open>The chip's side of the register instructions\<close>


section \<open>Observations on a trace\<close>

text \<open>The byte sequences handed to the line transport, as \<open>mcp2515_spi_trans\<close> prints them.\<close>

fun spi_writes :: "event list \<Rightarrow> u8 list list" where
  "spi_writes [] = []"
| "spi_writes (Printk_write bs # es) = bs # spi_writes es"
| "spi_writes (e # es) = spi_writes es"

text \<open>The levels driven on the data-out line, in order.\<close>

fun mosi_levels :: "event list \<Rightarrow> bool list" where
  "mosi_levels [] = []"
| "mosi_levels (Gpio_set_value pin v # es) =
     (if pin = GPIO_MOSI then v # mosi_levels es else mosi_levels es)"
| "mosi_levels (e # es) = mosi_levels es"

text \<open>The frames and error notifications delivered to the network stack.\<close>

fun delivered :: "event list \<Rightarrow> can_frame list" where
  "delivered [] = []"
| "delivered (Netif_rx_ni f # es) = f # delivered es"
| "delivered (e # es) = delivered es"


text \<open>
  The mask of a byte sequence that is a bit-modify instruction on the interrupt-flag
  register; \<open>None\<close> for every other byte sequence.
\<close>

definition canintf_clear_mask :: "u8 list \<Rightarrow> u8 option" where
  "canintf_clear_mask bs =
     (case bs of
        [i, a, m, v] \<Rightarrow> if i = INSTRUCTION_BIT_MODIFY \<and> a = CANINTF then Some m else None
      | _ \<Rightarrow> None)"

section \<open>The claim's reading of ``most-significant-bit first''\<close>

text \<open>
  This definition follows the spec's words, not the source: the levels that data-out
  takes for one byte when each of its eight bits is sent in turn, bit 7 first.
\<close>

definition spec_msb_first :: "u8 \<Rightarrow> bool list" where
  "spec_msb_first b = map (bit b) [7, 6, 5, 4, 3, 2, 1, 0]"

section \<open>A concrete driver state\<close>

text \<open>
  The state after \<open>open\<close>: error-active, nothing pending, zeroed buffers and counters,
  an empty trace; an input line that stays low and allocations that succeed. It serves
  as the concrete input of the examples.
\<close>

definition priv0 :: mcp2515_priv where
  "priv0 =
     \<lparr>can_state = CAN_STATE_ERROR_ACTIVE, can_restart_ms = 0, can_ctrlmode = 0,
      bt_sjw = 1, bt_brp = 4, bt_phase_seg1 = 3, bt_phase_seg2 = 2, bt_prop_seg = 2,
      error_warning = 0, error_passive = 0,
      spi_tx_buf = replicate 14 0, spi_rx_buf = replicate 14 0,
      tx_skb = None, tx_len = 0, force_quit = 0,
      rx_packets = 0, rx_bytes = 0, rx_dropped = 0, rx_over_errors = 0, rx_errors = 0,
      tx_packets = 0, tx_bytes = 0, tx_dropped = 0,
      gpio_in = (\<lambda>n. False), gpio_cnt = 0, alloc_ok = (\<lambda>n. True), alloc_cnt = 0,
      trace = []\<rparr>"

section \<open>Auxiliary notions for the proofs\<close>

text \<open>The fields of the link state and its statistics.\<close>

definition link_fields :: "mcp2515_priv \<Rightarrow> can_state \<times> cint \<times> u32 \<times> u32" where
  "link_fields s = (can_state s, can_restart_ms s, error_warning s, error_passive s)"

text \<open>A piece of trace that hands nothing to the transport's log and delivers no frame.\<close>

definition quiet :: "event list \<Rightarrow> bool" where
  "quiet t \<longleftrightarrow> spi_writes t = [] \<and> delivered t = []"

text \<open>
  \<open>adds P s s'\<close>: from \<open>s\<close> to \<open>s'\<close> the byte sequences handed to the line transport
  are extended, and every new one satisfies \<open>P\<close>.
\<close>

definition adds :: "(u8 list \<Rightarrow> bool) \<Rightarrow> mcp2515_priv \<Rightarrow> mcp2515_priv \<Rightarrow> bool" where
  "adds P s s' \<longleftrightarrow> (\<exists>W. spi_writes (trace s') = spi_writes (trace s) @ W \<and> list_all P W)"

text \<open>
  The two halves of one pass of the handler: first the receive deliveries and the clearing
  of the flags, then the state update and the error notification.
\<close>

definition ist_stage_io :: "mcp2515_priv \<Rightarrow> u8 \<Rightarrow> u8 \<Rightarrow> mcp2515_priv" where
  "ist_stage_io s intf eflag =
     (let s1 = (if intf AND CANINTF_RX0IF \<noteq> 0 then mcp2515_hw_rx s 0 else s);
          s2 = (if intf AND CANINTF_RX1IF \<noteq> 0 then mcp2515_hw_rx s1 1 else s1);
          clear_intf = ist_clear_intf intf;
          s3 = (if clear_intf \<noteq> 0 then mcp2515_write_bits s2 CANINTF clear_intf 0x00 else s2)
      in if eflag \<noteq> 0 then mcp2515_write_bits s3 EFLG eflag 0x00 else s3)"

definition ist_stage_state :: "mcp2515_priv \<Rightarrow> u8 \<Rightarrow> u8 \<Rightarrow> mcp2515_priv" where
  "ist_stage_state s intf eflag =
     (case ist_new_state eflag of
        (new_state, cid, data1) \<Rightarrow>
          ist_error_interrupt ((ist_update_stats s new_state)\<lparr>can_state := new_state\<rparr>)
            intf eflag cid data1)"

section \<open>Collections of the constants' definitions\<close>

lemmas instruction_defs =
  INSTRUCTION_WRITE_def INSTRUCTION_READ_def INSTRUCTION_BIT_MODIFY_def
  INSTRUCTION_RESET_def INSTRUCTION_LOAD_TXB_def INSTRUCTION_READ_RXB_def
  INSTRUCTION_RTS_def


lemmas canintf_defs =
  CANINTF_MERRF_def CANINTF_WAKIF_def CANINTF_ERRIF_def CANINTF_TX2IF_def
  CANINTF_TX1IF_def CANINTF_TX0IF_def CANINTF_RX1IF_def CANINTF_RX0IF_def
  CANINTF_RX_def CANINTF_TX_def CANINTF_ERR_def

lemmas eflg_defs =
  EFLG_EWARN_def EFLG_RXWAR_def EFLG_TXWAR_def EFLG_RXEP_def EFLG_TXEP_def
  EFLG_TXBO_def EFLG_RX0OVR_def EFLG_RX1OVR_def

lemmas mailbox_defs =
  SIDH_SHIFT_def SIDL_SID_MASK_def SIDL_SID_SHIFT_def SIDL_EXIDE_SHIFT_def
  SIDL_EID_SHIFT_def SIDL_EID_MASK_def DLC_RTR_SHIFT_def
  TXBCTRL_OFF_def TXBSIDH_OFF_def TXBSIDL_OFF_def TXBEID8_OFF_def
  TXBEID0_OFF_def TXBDLC_OFF_def TXBDAT_OFF_def
  RXBSIDH_SHIFT_def RXBSIDL_IDE_def RXBSIDL_SRR_def RXBSIDL_EID_def
  RXBSIDL_SHIFT_def RXBDLC_LEN_MASK_def RXBDLC_RTR_def
  RXBCTRL_OFF_def RXBSIDH_OFF_def RXBSIDL_OFF_def RXBEID8_OFF_def
  RXBEID0_OFF_def RXBDLC_OFF_def RXBDAT_OFF_def
  GET_BYTE_def SET_BYTE_def CAN_FRAME_MAX_DATA_LEN_def SPI_TRANSFER_BUF_LEN_def

lemmas gpio_defs = GPIO_MISO_def GPIO_MOSI_def GPIO_CLK_def GPIO_CS_def

lemmas can_defs =
  CAN_EFF_FLAG_def CAN_RTR_FLAG_def CAN_ERR_FLAG_def CAN_SFF_MASK_def
  CAN_EFF_MASK_def CAN_ERR_DLC_def CAN_ERR_CRTL_def CAN_ERR_BUSOFF_def
  CAN_ERR_CRTL_RX_OVERFLOW_def CAN_ERR_CRTL_RX_WARNING_def
  CAN_ERR_CRTL_TX_WARNING_def CAN_ERR_CRTL_RX_PASSIVE_def
  CAN_ERR_CRTL_TX_PASSIVE_def CAN_CTRLMODE_3_SAMPLES_def

section \<open>Lemmas on the transport, the register access and the handler\<close>

lemma spi_writes_append: "spi_writes (xs @ ys) = spi_writes xs @ spi_writes ys"
  by (induction xs rule: spi_writes.induct) simp_all

lemma delivered_append: "delivered (xs @ ys) = delivered xs @ delivered ys"
  by (induction xs rule: delivered.induct) simp_all

lemma mosi_levels_append: "mosi_levels (xs @ ys) = mosi_levels xs @ mosi_levels ys"
  by (induction xs rule: mosi_levels.induct) simp_all

lemma spi_bit_loop_shape:
  "\<exists>t. snd (spi_bit_loop n d di s) = s\<lparr>gpio_cnt := gpio_cnt s + n, trace := trace s @ t\<rparr> \<and>
       quiet t \<and> mosi_levels t = replicate n (d AND 0x80 \<noteq> 0)"
proof (induction n arbitrary: di s)
  case 0
  show ?case by (rule exI [of _ "[]"]) (simp add: quiet_def)
next
  case (Suc n)
  let ?v = "gpio_in s (gpio_cnt s)"
  let ?ev = "[Gpio_set_value GPIO_CLK False, Gpio_set_value GPIO_MOSI (d AND 0x80 \<noteq> 0),
              Gpio_set_value GPIO_CLK True, Gpio_get_value GPIO_MISO ?v]"
  let ?s4 = "s\<lparr>gpio_cnt := Suc (gpio_cnt s), trace := trace s @ ?ev\<rparr>"
  let ?di = "if ?v then push_bit 1 di OR 0x01 else push_bit 1 di"
  have step: "spi_bit_loop (Suc n) d di s = spi_bit_loop n d ?di ?s4"
    by (simp add: gpio_set_value_def gpio_get_value_def emit_def Let_def)
  from Suc.IH [of ?di ?s4] obtain t where
    t: "snd (spi_bit_loop n d ?di ?s4) = ?s4\<lparr>gpio_cnt := gpio_cnt ?s4 + n, trace := trace ?s4 @ t\<rparr>"
       "quiet t" "mosi_levels t = replicate n (d AND 0x80 \<noteq> 0)"
    by blast
  have "snd (spi_bit_loop (Suc n) d di s) = s\<lparr>gpio_cnt := gpio_cnt s + Suc n, trace := trace s @ (?ev @ t)\<rparr>"
    unfolding step using t(1) by simp
  moreover have "quiet (?ev @ t)"
    using t(2) by (simp add: quiet_def spi_writes_append delivered_append)
  moreover have "mosi_levels (?ev @ t) = replicate (Suc n) (d AND 0x80 \<noteq> 0)"
    using t(3) by (simp add: mosi_levels_append gpio_defs)
  ultimately show ?case by blast
qed

lemma spi_byte_shape:
  "\<exists>t v. spi_byte i s = s\<lparr>spi_rx_buf := (spi_rx_buf s)[i := v], gpio_cnt := gpio_cnt s + 8,
                           trace := trace s @ t\<rparr> \<and>
       quiet t \<and> mosi_levels t = replicate 8 (spi_tx_buf s ! i AND 0x80 \<noteq> 0)"
proof -
  obtain t where
    t: "snd (spi_bit_loop 8 (spi_tx_buf s ! i) 0 s) = s\<lparr>gpio_cnt := gpio_cnt s + 8, trace := trace s @ t\<rparr>"
       "quiet t" "mosi_levels t = replicate 8 (spi_tx_buf s ! i AND 0x80 \<noteq> 0)"
    using spi_bit_loop_shape [of 8 "spi_tx_buf s ! i" 0 s] by blast
  have "spi_byte i s = s\<lparr>spi_rx_buf := (spi_rx_buf s)[i := fst (spi_bit_loop 8 (spi_tx_buf s ! i) 0 s)],
          gpio_cnt := gpio_cnt s + 8, trace := trace s @ t\<rparr>"
    using t(1) by (cases "spi_bit_loop 8 (spi_tx_buf s ! i) 0 s") (simp add: spi_byte_def)
  with t(2,3) show ?thesis by blast
qed

lemma spi_byte_loop_shape:
  "\<exists>t rxb. spi_byte_loop n i s = s\<lparr>spi_rx_buf := rxb, gpio_cnt := gpio_cnt s + 8 * n,
                                   trace := trace s @ t\<rparr> \<and>
       length rxb = length (spi_rx_buf s) \<and> quiet t \<and>
       mosi_levels t = concat (map (\<lambda>k. replicate 8 (spi_tx_buf s ! k AND 0x80 \<noteq> 0)) [i..<i + n])"
proof (induction n arbitrary: i s)
  case 0
  have "s = s\<lparr>spi_rx_buf := spi_rx_buf s, gpio_cnt := gpio_cnt s + 8 * 0, trace := trace s @ []\<rparr>"
    by simp
  then show ?case by (auto simp: quiet_def intro!: exI [of _ "[]"] exI [of _ "spi_rx_buf s"])
next
  case (Suc n)
  obtain t v where
    b: "spi_byte i s = s\<lparr>spi_rx_buf := (spi_rx_buf s)[i := v], gpio_cnt := gpio_cnt s + 8,
                          trace := trace s @ t\<rparr>"
       "quiet t" "mosi_levels t = replicate 8 (spi_tx_buf s ! i AND 0x80 \<noteq> 0)"
    using spi_byte_shape [of i s] by blast
  let ?s1 = "spi_byte i s"
  obtain t' rxb where
    l: "spi_byte_loop n (Suc i) ?s1 = ?s1\<lparr>spi_rx_buf := rxb, gpio_cnt := gpio_cnt ?s1 + 8 * n,
                                          trace := trace ?s1 @ t'\<rparr>"
       "length rxb = length (spi_rx_buf ?s1)" "quiet t'"
       "mosi_levels t' =
          concat (map (\<lambda>k. replicate 8 (spi_tx_buf ?s1 ! k AND 0x80 \<noteq> 0)) [Suc i..<Suc i + n])"
    using Suc.IH [of "Suc i" ?s1] by blast
  have "spi_byte_loop (Suc n) i s =
          s\<lparr>spi_rx_buf := rxb, gpio_cnt := gpio_cnt s + 8 * Suc n, trace := trace s @ (t @ t')\<rparr>"
    using l(1) by (simp add: b(1))
  moreover have "length rxb = length (spi_rx_buf s)"
    using l(2) by (simp add: b(1))
  moreover have "quiet (t @ t')"
    using b(2) l(3) by (simp add: quiet_def spi_writes_append delivered_append)
  moreover have "mosi_levels (t @ t') =
      concat (map (\<lambda>k. replicate 8 (spi_tx_buf s ! k AND 0x80 \<noteq> 0)) [i..<i + Suc n])"
  proof -
    have "[i..<i + Suc n] = i # [Suc i..<Suc i + n]"
      by (simp add: upt_conv_Cons)
    then show ?thesis
      using b(3) l(4) by (simp add: mosi_levels_append b(1))
  qed
  ultimately show ?case by blast
qed

lemma spi_trans_shape:
  "\<exists>t rxb. mcp2515_spi_trans s len = s\<lparr>spi_rx_buf := rxb, gpio_cnt := gpio_cnt s + 8 * len,
                                        trace := trace s @ t\<rparr> \<and>
       length rxb = length (spi_rx_buf s) \<and>
       spi_writes t = [take len (spi_tx_buf s)] \<and> delivered t = [] \<and>
       mosi_levels t = concat (map (\<lambda>k. replicate 8 (spi_tx_buf s ! k AND 0x80 \<noteq> 0)) [0..<len])"
proof -
  obtain t rxb where
    l: "spi_byte_loop len 0 s = s\<lparr>spi_rx_buf := rxb, gpio_cnt := gpio_cnt s + 8 * len,
                                   trace := trace s @ t\<rparr>"
       "length rxb = length (spi_rx_buf s)" "quiet t"
       "mosi_levels t = concat (map (\<lambda>k. replicate 8 (spi_tx_buf s ! k AND 0x80 \<noteq> 0)) [0..<0 + len])"
    using spi_byte_loop_shape [of len 0 s] by blast
  let ?p = "[Printk_write (take len (spi_tx_buf s)), Printk_read (take len (spi_tx_buf s))]"
  have "mcp2515_spi_trans s len =
          s\<lparr>spi_rx_buf := rxb, gpio_cnt := gpio_cnt s + 8 * len, trace := trace s @ (t @ ?p)\<rparr>"
    by (simp add: mcp2515_spi_trans_def l(1) emit_def Let_def)
  moreover have "spi_writes (t @ ?p) = [take len (spi_tx_buf s)]" "delivered (t @ ?p) = []"
    using l(3) by (simp_all add: quiet_def spi_writes_append delivered_append)
  moreover have "mosi_levels (t @ ?p) =
      concat (map (\<lambda>k. replicate 8 (spi_tx_buf s ! k AND 0x80 \<noteq> 0)) [0..<len])"
    using l(4) by (simp add: mosi_levels_append)
  ultimately show ?thesis using l(2) by blast
qed

lemma adds_refl: "adds P s s"
  by (simp add: adds_def)

lemma adds_trans: "adds P s s' \<Longrightarrow> adds P s' s'' \<Longrightarrow> adds P s s''"
  by (auto simp: adds_def)

lemma adds_same_trace: "trace s' = trace s \<Longrightarrow> adds P s s'"
  by (simp add: adds_def)

lemma spi_trans_link [simp]: "link_fields (mcp2515_spi_trans s len) = link_fields s"
  using spi_trans_shape [of s len] by (auto simp: link_fields_def)

lemma spi_trans_link_fields [simp]:
  "can_state (mcp2515_spi_trans s len) = can_state s"
  "can_restart_ms (mcp2515_spi_trans s len) = can_restart_ms s"
  "error_warning (mcp2515_spi_trans s len) = error_warning s"
  "error_passive (mcp2515_spi_trans s len) = error_passive s"
  using spi_trans_link [of s len] by (simp_all add: link_fields_def)

lemma spi_trans_tx_buf [simp]: "spi_tx_buf (mcp2515_spi_trans s len) = spi_tx_buf s"
  using spi_trans_shape [of s len] by auto

lemma spi_trans_rx_len [simp]: "length (spi_rx_buf (mcp2515_spi_trans s len)) = length (spi_rx_buf s)"
  using spi_trans_shape [of s len] by auto

lemma spi_trans_alloc [simp]:
  "alloc_ok (mcp2515_spi_trans s len) = alloc_ok s"
  "alloc_cnt (mcp2515_spi_trans s len) = alloc_cnt s"
  using spi_trans_shape [of s len] by auto

lemma spi_trans_slot [simp]:
  "tx_skb (mcp2515_spi_trans s len) = tx_skb s"
  "tx_len (mcp2515_spi_trans s len) = tx_len s"
  "force_quit (mcp2515_spi_trans s len) = force_quit s"
  using spi_trans_shape [of s len] by auto

lemma spi_trans_bt [simp]:
  "bt_sjw (mcp2515_spi_trans s len) = bt_sjw s"
  "bt_brp (mcp2515_spi_trans s len) = bt_brp s"
  "bt_phase_seg1 (mcp2515_spi_trans s len) = bt_phase_seg1 s"
  "bt_phase_seg2 (mcp2515_spi_trans s len) = bt_phase_seg2 s"
  "bt_prop_seg (mcp2515_spi_trans s len) = bt_prop_seg s"
  "can_ctrlmode (mcp2515_spi_trans s len) = can_ctrlmode s"
  using spi_trans_shape [of s len] by auto

lemma spi_trans_writes [simp]:
  "spi_writes (trace (mcp2515_spi_trans s len)) = spi_writes (trace s) @ [take len (spi_tx_buf s)]"
  using spi_trans_shape [of s len] by (auto simp: spi_writes_append)

lemma spi_trans_delivered [simp]:
  "delivered (trace (mcp2515_spi_trans s len)) = delivered (trace s)"
  using spi_trans_shape [of s len] by (auto simp: delivered_append)

lemma spi_trans_mosi:
  "mosi_levels (trace (mcp2515_spi_trans s len)) =
     mosi_levels (trace s) @
     concat (map (\<lambda>k. replicate 8 (spi_tx_buf s ! k AND 0x80 \<noteq> 0)) [0..<len])"
  using spi_trans_shape [of s len] by (auto simp: mosi_levels_append)

lemma spi_trans_wf [simp]: "wf_priv (mcp2515_spi_trans s len) = wf_priv s"
  by (simp add: wf_priv_def)

lemma emit_simps [simp]:
  "link_fields (emit e s) = link_fields s"
  "spi_tx_buf (emit e s) = spi_tx_buf s"
  "spi_rx_buf (emit e s) = spi_rx_buf s"
  "wf_priv (emit e s) = wf_priv s"
  "trace (emit e s) = trace s @ [e]"
  "alloc_ok (emit e s) = alloc_ok s"
  "alloc_cnt (emit e s) = alloc_cnt s"
  by (simp_all add: emit_def link_fields_def wf_priv_def)

lemma write_bits_link [simp]: "link_fields (mcp2515_write_bits s reg m v) = link_fields s"
  by (simp add: mcp2515_write_bits_def Let_def gpio_set_value_def udelay_def)
    (simp add: link_fields_def)

lemma write_bits_wf [simp]: "wf_priv (mcp2515_write_bits s reg m v) = wf_priv s"
  by (simp add: mcp2515_write_bits_def Let_def gpio_set_value_def udelay_def)
    (simp add: wf_priv_def)

lemma length_ge4E:
  assumes "4 \<le> length ys"
  obtains a b c d zs where "ys = a # b # c # d # zs"
  using assms
  by (cases ys; simp; cases "tl ys"; simp; cases "tl (tl ys)"; simp; cases "tl (tl (tl ys))"; simp)

lemma take4_update:
  "4 \<le> length xs \<Longrightarrow> take 4 (xs[0 := a, Suc 0 := b, 2 := c, 3 := d]) = [a, b, c, d]"
  by (erule length_ge4E) (simp add: eval_nat_numeral)

lemma take3_update:
  "4 \<le> length xs \<Longrightarrow> take 3 (xs[0 := a, Suc 0 := b, 2 := c]) = [a, b, c]"
  by (erule length_ge4E) (simp add: eval_nat_numeral)

lemma take2_update_stale:
  "4 \<le> length xs \<Longrightarrow> take 4 (xs[0 := a, Suc 0 := b]) = [a, b, xs ! 2, xs ! 3]"
  by (erule length_ge4E) (simp add: eval_nat_numeral)

lemma write_bits_writes:
  "wf_priv s \<Longrightarrow>
   spi_writes (trace (mcp2515_write_bits s reg m v)) =
     spi_writes (trace s) @ [[INSTRUCTION_BIT_MODIFY, reg, m, v]]"
  by (simp add: mcp2515_write_bits_def Let_def gpio_set_value_def udelay_def spi_writes_append
      take4_update wf_priv_def SPI_TRANSFER_BUF_LEN_def CAN_FRAME_MAX_DATA_LEN_def)

lemma write_bits_delivered [simp]:
  "delivered (trace (mcp2515_write_bits s reg m v)) = delivered (trace s)"
  by (simp add: mcp2515_write_bits_def Let_def gpio_set_value_def udelay_def delivered_append)

lemma write_reg_link [simp]: "link_fields (mcp2515_write_reg s reg v) = link_fields s"
  by (simp add: mcp2515_write_reg_def Let_def gpio_set_value_def udelay_def)
    (simp add: link_fields_def)

lemma write_reg_wf [simp]: "wf_priv (mcp2515_write_reg s reg v) = wf_priv s"
  by (simp add: mcp2515_write_reg_def Let_def gpio_set_value_def udelay_def)
    (simp add: wf_priv_def)

lemma write_reg_writes:
  "wf_priv s \<Longrightarrow>
   spi_writes (trace (mcp2515_write_reg s reg v)) =
     spi_writes (trace s) @ [[INSTRUCTION_WRITE, reg, v]]"
  by (simp add: mcp2515_write_reg_def Let_def gpio_set_value_def udelay_def spi_writes_append
      take3_update wf_priv_def SPI_TRANSFER_BUF_LEN_def CAN_FRAME_MAX_DATA_LEN_def)

lemma write_reg_delivered [simp]:
  "delivered (trace (mcp2515_write_reg s reg v)) = delivered (trace s)"
  by (simp add: mcp2515_write_reg_def Let_def gpio_set_value_def udelay_def delivered_append)

lemma write_reg_bt [simp]:
  "bt_sjw (mcp2515_write_reg s reg v) = bt_sjw s"
  "bt_brp (mcp2515_write_reg s reg v) = bt_brp s"
  "bt_phase_seg1 (mcp2515_write_reg s reg v) = bt_phase_seg1 s"
  "bt_phase_seg2 (mcp2515_write_reg s reg v) = bt_phase_seg2 s"
  "bt_prop_seg (mcp2515_write_reg s reg v) = bt_prop_seg s"
  "can_ctrlmode (mcp2515_write_reg s reg v) = can_ctrlmode s"
  by (simp_all add: mcp2515_write_reg_def Let_def gpio_set_value_def udelay_def emit_def)


lemma read_2regs_wf [simp]: "wf_priv (snd (snd (mcp2515_read_2regs s reg))) = wf_priv s"
  by (simp add: mcp2515_read_2regs_def Let_def gpio_set_value_def udelay_def)
    (simp add: wf_priv_def)

lemma read_2regs_writes:
  "wf_priv s \<Longrightarrow>
   spi_writes (trace (snd (snd (mcp2515_read_2regs s reg)))) =
     spi_writes (trace s) @ [[INSTRUCTION_READ, reg, spi_tx_buf s ! 2, spi_tx_buf s ! 3]]"
  by (simp add: mcp2515_read_2regs_def Let_def gpio_set_value_def udelay_def spi_writes_append
      take2_update_stale wf_priv_def SPI_TRANSFER_BUF_LEN_def CAN_FRAME_MAX_DATA_LEN_def)

lemma read_2regs_delivered [simp]:
  "delivered (trace (snd (snd (mcp2515_read_2regs s reg)))) = delivered (trace s)"
  by (simp add: mcp2515_read_2regs_def Let_def gpio_set_value_def udelay_def delivered_append)

lemma hw_sleep_simps [simp]:
  "link_fields (mcp2515_hw_sleep s) = link_fields s"
  "wf_priv (mcp2515_hw_sleep s) = wf_priv s"
  "delivered (trace (mcp2515_hw_sleep s)) = delivered (trace s)"
  by (simp_all add: mcp2515_hw_sleep_def)

lemma hw_rx_link [simp]: "link_fields (mcp2515_hw_rx s idx) = link_fields s"
  by (simp add: mcp2515_hw_rx_def mcp2515_hw_rx_frame_def alloc_skb_def Let_def)
    (simp add: link_fields_def)

lemma hw_rx_wf [simp]: "wf_priv (mcp2515_hw_rx s idx) = wf_priv s"
  by (simp add: mcp2515_hw_rx_def mcp2515_hw_rx_frame_def alloc_skb_def Let_def)
    (simp add: wf_priv_def)

lemma hw_rx_adds:
  assumes "wf_priv s" and "\<And>bs. length bs = SPI_TRANSFER_BUF_LEN \<Longrightarrow> P bs"
  shows "adds P s (mcp2515_hw_rx s idx)"
  using assms
  by (simp add: adds_def mcp2515_hw_rx_def mcp2515_hw_rx_frame_def alloc_skb_def Let_def
      spi_writes_append wf_priv_def)

lemma error_skb_simps [simp]:
  "link_fields (mcp2515_error_skb s cid d1) = link_fields s"
  "wf_priv (mcp2515_error_skb s cid d1) = wf_priv s"
  "spi_writes (trace (mcp2515_error_skb s cid d1)) = spi_writes (trace s)"
  by (simp_all add: mcp2515_error_skb_def alloc_skb_def spi_writes_append)
    (simp_all add: link_fields_def wf_priv_def)

lemma error_interrupt_simps [simp]:
  "link_fields (ist_error_interrupt s intf eflag cid d1) = link_fields s"
  "wf_priv (ist_error_interrupt s intf eflag cid d1) = wf_priv s"
  "spi_writes (trace (ist_error_interrupt s intf eflag cid d1)) = spi_writes (trace s)"
  by (simp_all add: ist_error_interrupt_def Let_def)
    (simp_all add: link_fields_def wf_priv_def)

lemma error_interrupt_quiet:
  "intf AND CANINTF_ERRIF = 0 \<Longrightarrow> ist_error_interrupt s intf eflag cid d1 = s"
  by (simp add: ist_error_interrupt_def)

lemma tx_complete_simps [simp]:
  "link_fields (ist_tx_complete s) = link_fields s"
  "wf_priv (ist_tx_complete s) = wf_priv s"
  "spi_writes (trace (ist_tx_complete s)) = spi_writes (trace s)"
  by (simp_all add: ist_tx_complete_def Let_def spi_writes_append)
    (simp_all add: link_fields_def wf_priv_def emit_def)

lemma update_stats_simps [simp]:
  "wf_priv (ist_update_stats s new) = wf_priv s"
  "trace (ist_update_stats s new) = trace s"
  "can_restart_ms (ist_update_stats s new) = can_restart_ms s"
  by (simp_all add: ist_update_stats_def ist_case_error_active_def ist_case_error_warning_def
      wf_priv_def split: can_state.splits)

lemma ist_body_unfold:
  "mcp2515_can_ist_body s intf0 eflag =
     (let intf = intf0 AND (CANINTF_RX OR CANINTF_TX OR CANINTF_ERR);
          s6 = ist_stage_state (ist_stage_io s intf eflag) intf eflag
      in if can_state s6 = CAN_STATE_BUS_OFF \<and> can_restart_ms s6 = 0 then
           (True, mcp2515_hw_sleep (emit Can_bus_off (s6\<lparr>force_quit := 1\<rparr>)))
         else if intf = 0 then (True, s6)
         else (False, if intf AND CANINTF_TX \<noteq> 0 then ist_tx_complete s6 else s6))"
proof -
  obtain new_state cid data1 where n: "ist_new_state eflag = (new_state, cid, data1)"
    by (cases "ist_new_state eflag") auto
  show ?thesis
    unfolding mcp2515_can_ist_body_def ist_stage_state_def ist_stage_io_def Let_def n prod.case
    by (rule refl)
qed

lemma stage_io_link [simp]: "link_fields (ist_stage_io s intf eflag) = link_fields s"
  by (simp add: ist_stage_io_def Let_def)

lemma stage_io_wf [simp]: "wf_priv (ist_stage_io s intf eflag) = wf_priv s"
  by (simp add: ist_stage_io_def Let_def)

lemma write_bits_adds:
  "wf_priv s \<Longrightarrow> P [INSTRUCTION_BIT_MODIFY, reg, m, v] \<Longrightarrow> adds P s (mcp2515_write_bits s reg m v)"
  by (simp add: adds_def write_bits_writes)

lemma write_reg_adds:
  "wf_priv s \<Longrightarrow> P [INSTRUCTION_WRITE, reg, v] \<Longrightarrow> adds P s (mcp2515_write_reg s reg v)"
  by (simp add: adds_def write_reg_writes)

lemma stage_io_adds:
  assumes wf: "wf_priv s"
    and rx: "\<And>bs. length bs = SPI_TRANSFER_BUF_LEN \<Longrightarrow> P bs"
    and clr: "ist_clear_intf intf \<noteq> 0 \<Longrightarrow> P [INSTRUCTION_BIT_MODIFY, CANINTF, ist_clear_intf intf, 0]"
    and efl: "eflag \<noteq> 0 \<Longrightarrow> P [INSTRUCTION_BIT_MODIFY, EFLG, eflag, 0]"
  shows "adds P s (ist_stage_io s intf eflag)"
proof -
  define s1 where "s1 = (if intf AND CANINTF_RX0IF \<noteq> 0 then mcp2515_hw_rx s 0 else s)"
  define s2 where "s2 = (if intf AND CANINTF_RX1IF \<noteq> 0 then mcp2515_hw_rx s1 1 else s1)"
  define s3 where "s3 = (if ist_clear_intf intf \<noteq> 0
      then mcp2515_write_bits s2 CANINTF (ist_clear_intf intf) 0x00 else s2)"
  define s4 where "s4 = (if eflag \<noteq> 0 then mcp2515_write_bits s3 EFLG eflag 0x00 else s3)"
  have wfs: "wf_priv s1" "wf_priv s2" "wf_priv s3"
    using wf by (simp_all add: s1_def s2_def s3_def)
  have a1: "adds P s s1"
    using wf rx by (simp add: s1_def hw_rx_adds adds_refl)
  have a2: "adds P s1 s2"
    using wfs(1) rx by (simp add: s2_def hw_rx_adds adds_refl)
  have a3: "adds P s2 s3"
    using wfs(2) clr by (simp add: s3_def write_bits_adds adds_refl)
  have a4: "adds P s3 s4"
    using wfs(3) efl by (simp add: s4_def write_bits_adds adds_refl)
  have "ist_stage_io s intf eflag = s4"
    by (simp add: ist_stage_io_def Let_def s1_def s2_def s3_def s4_def)
  then show ?thesis
    using a1 a2 a3 a4 by (blast intro: adds_trans)
qed

lemma stage_io_delivered:
  "intf AND CANINTF_RX0IF = 0 \<Longrightarrow> intf AND CANINTF_RX1IF = 0 \<Longrightarrow>
   delivered (trace (ist_stage_io s intf eflag)) = delivered (trace s)"
  by (simp add: ist_stage_io_def Let_def)

lemma update_stats_link:
  "can_state (ist_update_stats s new) = can_state s"
  "error_warning (ist_update_stats s new) =
     (if can_state s = CAN_STATE_ERROR_ACTIVE \<and>
         can_state_val CAN_STATE_ERROR_WARNING \<le> can_state_val new \<and>
         can_state_val new \<le> can_state_val CAN_STATE_BUS_OFF
      then error_warning s + 1 else error_warning s)"
  "error_passive (ist_update_stats s new) =
     (if (can_state s = CAN_STATE_ERROR_ACTIVE \<or> can_state s = CAN_STATE_ERROR_WARNING) \<and>
         can_state_val CAN_STATE_ERROR_PASSIVE \<le> can_state_val new \<and>
         can_state_val new \<le> can_state_val CAN_STATE_BUS_OFF
      then error_passive s + 1 else error_passive s)"
  by (simp_all add: ist_update_stats_def ist_case_error_active_def ist_case_error_warning_def
      split: can_state.splits)

lemma error_interrupt_fields [simp]:
  "can_state (ist_error_interrupt s intf eflag cid d1) = can_state s"
  "can_restart_ms (ist_error_interrupt s intf eflag cid d1) = can_restart_ms s"
  "error_warning (ist_error_interrupt s intf eflag cid d1) = error_warning s"
  "error_passive (ist_error_interrupt s intf eflag cid d1) = error_passive s"
  using error_interrupt_simps(1) [of s intf eflag cid d1] by (simp_all add: link_fields_def)

lemma stage_state_link:
  "can_state (ist_stage_state s intf eflag) = fst (ist_new_state eflag)"
  "can_restart_ms (ist_stage_state s intf eflag) = can_restart_ms s"
  "error_warning (ist_stage_state s intf eflag) =
     error_warning (ist_update_stats s (fst (ist_new_state eflag)))"
  "error_passive (ist_stage_state s intf eflag) =
     error_passive (ist_update_stats s (fst (ist_new_state eflag)))"
  by (simp_all add: ist_stage_state_def split: prod.splits)

lemma wf_update_can_state [simp]: "wf_priv (s\<lparr>can_state := x\<rparr>) = wf_priv s"
  by (simp add: wf_priv_def)

lemma stage_state_wf [simp]: "wf_priv (ist_stage_state s intf eflag) = wf_priv s"
  by (simp add: ist_stage_state_def split: prod.splits)

lemma stage_state_writes [simp]:
  "spi_writes (trace (ist_stage_state s intf eflag)) = spi_writes (trace s)"
  by (simp add: ist_stage_state_def split: prod.splits)

lemma stage_state_delivered:
  "intf AND CANINTF_ERRIF = 0 \<Longrightarrow>
   delivered (trace (ist_stage_state s intf eflag)) = delivered (trace s)"
  by (simp add: ist_stage_state_def error_interrupt_quiet split: prod.splits)

lemma stage_io_fields [simp]:
  "can_state (ist_stage_io s intf eflag) = can_state s"
  "can_restart_ms (ist_stage_io s intf eflag) = can_restart_ms s"
  "error_warning (ist_stage_io s intf eflag) = error_warning s"
  "error_passive (ist_stage_io s intf eflag) = error_passive s"
  using stage_io_link [of s intf eflag] by (simp_all add: link_fields_def)

lemma hw_sleep_fields [simp]:
  "can_state (mcp2515_hw_sleep s) = can_state s"
  "can_restart_ms (mcp2515_hw_sleep s) = can_restart_ms s"
  "error_warning (mcp2515_hw_sleep s) = error_warning s"
  "error_passive (mcp2515_hw_sleep s) = error_passive s"
  using hw_sleep_simps(1) [of s] by (simp_all add: link_fields_def)

lemma tx_complete_fields [simp]:
  "can_state (ist_tx_complete s) = can_state s"
  "can_restart_ms (ist_tx_complete s) = can_restart_ms s"
  "error_warning (ist_tx_complete s) = error_warning s"
  "error_passive (ist_tx_complete s) = error_passive s"
  using tx_complete_simps(1) [of s] by (simp_all add: link_fields_def)

lemma emit_fields [simp]:
  "can_state (emit e s) = can_state s"
  "can_restart_ms (emit e s) = can_restart_ms s"
  "error_warning (emit e s) = error_warning s"
  "error_passive (emit e s) = error_passive s"
  by (simp_all add: emit_def)

lemma ist_body_link:
  "can_state (snd (mcp2515_can_ist_body s intf0 eflag)) = fst (ist_new_state eflag)"
  "error_warning (snd (mcp2515_can_ist_body s intf0 eflag)) =
     error_warning (ist_update_stats s (fst (ist_new_state eflag)))"
  "error_passive (snd (mcp2515_can_ist_body s intf0 eflag)) =
     error_passive (ist_update_stats s (fst (ist_new_state eflag)))"
  by (auto simp: ist_body_unfold Let_def stage_state_link update_stats_link)

lemma wf_update_force_quit [simp]: "wf_priv (s\<lparr>force_quit := x\<rparr>) = wf_priv s"
  by (simp add: wf_priv_def)

lemma ist_body_wf [simp]: "wf_priv (snd (mcp2515_can_ist_body s intf0 eflag)) = wf_priv s"
  by (simp add: ist_body_unfold Let_def)

lemma ist_body_adds:
  assumes wf: "wf_priv s"
    and rx: "\<And>bs. length bs = SPI_TRANSFER_BUF_LEN \<Longrightarrow> P bs"
    and clr: "\<And>m. m = ist_clear_intf (intf0 AND (CANINTF_RX OR CANINTF_TX OR CANINTF_ERR)) \<Longrightarrow>
                m \<noteq> 0 \<Longrightarrow> P [INSTRUCTION_BIT_MODIFY, CANINTF, m, 0]"
    and efl: "eflag \<noteq> 0 \<Longrightarrow> P [INSTRUCTION_BIT_MODIFY, EFLG, eflag, 0]"
    and slp: "P [INSTRUCTION_WRITE, CANCTRL, CANCTRL_REQOP_SLEEP]"
  shows "adds P s (snd (mcp2515_can_ist_body s intf0 eflag))"
proof -
  define intf where "intf = intf0 AND (CANINTF_RX OR CANINTF_TX OR CANINTF_ERR)"
  define s4 where "s4 = ist_stage_io s intf eflag"
  define s6 where "s6 = ist_stage_state s4 intf eflag"
  have a4: "adds P s s4"
    unfolding s4_def using wf rx clr efl by (intro stage_io_adds) (simp_all add: intf_def)
  have a6: "adds P s4 s6"
    by (simp add: s6_def adds_def)
  have wf6: "wf_priv s6"
    using wf by (simp add: s6_def s4_def)
  have a7: "adds P s6 (mcp2515_hw_sleep (emit Can_bus_off (s6\<lparr>force_quit := 1\<rparr>)))"
  proof -
    have "wf_priv (emit Can_bus_off (s6\<lparr>force_quit := 1\<rparr>))"
      using wf6 by (simp add: wf_priv_def emit_def)
    then have "adds P (emit Can_bus_off (s6\<lparr>force_quit := 1\<rparr>))
                 (mcp2515_hw_sleep (emit Can_bus_off (s6\<lparr>force_quit := 1\<rparr>)))"
      unfolding mcp2515_hw_sleep_def using slp by (rule write_reg_adds)
    moreover have "adds P s6 (emit Can_bus_off (s6\<lparr>force_quit := 1\<rparr>))"
      by (simp add: adds_def spi_writes_append)
    ultimately show ?thesis by (rule adds_trans [rotated])
  qed
  have a8: "adds P s6 (ist_tx_complete s6)"
    by (simp add: adds_def)
  have "snd (mcp2515_can_ist_body s intf0 eflag) =
          mcp2515_hw_sleep (emit Can_bus_off (s6\<lparr>force_quit := 1\<rparr>)) \<or>
        snd (mcp2515_can_ist_body s intf0 eflag) = s6 \<or>
        snd (mcp2515_can_ist_body s intf0 eflag) = ist_tx_complete s6"
    unfolding ist_body_unfold Let_def intf_def [symmetric] s4_def [symmetric] s6_def [symmetric]
    by auto
  then have "adds P s6 (snd (mcp2515_can_ist_body s intf0 eflag))"
    using a7 a8 adds_refl [of P s6] by auto
  with a4 a6 show ?thesis by (blast intro: adds_trans)
qed

lemma ist_body_masked:
  "mcp2515_can_ist_body s (intf0 AND (CANINTF_RX OR CANINTF_TX OR CANINTF_ERR)) eflag =
   mcp2515_can_ist_body s intf0 eflag"
  by (simp add: mcp2515_can_ist_body_def and.assoc)

lemma ist_body_quiescent:
  assumes "intf0 AND (CANINTF_RX OR CANINTF_TX OR CANINTF_ERR) = 0"
  shows "fst (mcp2515_can_ist_body s intf0 eflag)"
    and "delivered (trace (snd (mcp2515_can_ist_body s intf0 eflag))) = delivered (trace s)"
  using assms
  by (simp_all add: ist_body_unfold Let_def stage_state_delivered stage_io_delivered
      delivered_append)

lemma priv0_wf: "wf_priv priv0"
  by (simp add: wf_priv_def priv0_def SPI_TRANSFER_BUF_LEN_def CAN_FRAME_MAX_DATA_LEN_def)

lemma txbo_set: "(eflag OR EFLG_TXBO OR EFLG_RXWAR) AND EFLG_TXBO \<noteq> 0"
proof
  assume "(eflag OR EFLG_TXBO OR EFLG_RXWAR) AND EFLG_TXBO = 0"
  then have "bit ((eflag OR EFLG_TXBO OR EFLG_RXWAR) AND EFLG_TXBO) 5 = bit (0 :: u8) 5"
    by simp
  then show False
    by (simp add: bit_simps eflg_defs)
qed


















lemma care_mask: "CANINTF_RX OR CANINTF_TX OR CANINTF_ERR = NOT (CANINTF_MERRF OR CANINTF_WAKIF)"
  by (simp add: canintf_defs)

lemma clear_mask_bits:
  "ist_clear_intf intf AND CANINTF_RX = 0"
  "ist_clear_intf intf AND NOT (CANINTF_TX OR CANINTF_ERR) = 0"
  "ist_clear_intf intf AND (CANINTF_MERRF OR CANINTF_WAKIF) = 0"
  by (simp_all add: ist_clear_intf_def canintf_defs and.assoc)

lemma clear_mask_zero: "ist_clear_intf 0 = 0"
  by (simp add: ist_clear_intf_def)


lemma clear_mask_long: "length bs = SPI_TRANSFER_BUF_LEN \<Longrightarrow> canintf_clear_mask bs = None"
  by (auto simp: canintf_clear_mask_def SPI_TRANSFER_BUF_LEN_def CAN_FRAME_MAX_DATA_LEN_def
      split: list.splits)

lemma clear_mask_other:
  "canintf_clear_mask [INSTRUCTION_BIT_MODIFY, EFLG, m, v] = None"
  "canintf_clear_mask [INSTRUCTION_WRITE, a, v] = None"
  "canintf_clear_mask [INSTRUCTION_BIT_MODIFY, CANINTF, m, v] = Some m"
  by (simp_all add: canintf_clear_mask_def EFLG_def CANINTF_def)

section \<open>The claims\<close>

text \<open>
  Claim C1 (line transport, most-significant-bit first). The claim says that for each of
  the 8 bits of each outbound byte the transfer sets data-out to that bit's value. The
  source tests \<open>data_out & 0x80\<close> in every iteration of the inner loop and never shifts
  \<open>data_out\<close> (only \<open>data_in\<close> is shifted), so data-out carries bit 7 of the byte eight
  times, although the loop is headed by the comment ``MSB first''. At the outbound bytes
  \<open>[INSTRUCTION_READ, CANSTAT] = [0x03, 0x0e]\<close>, the start of \<open>mcp2515_read_reg\<close>, the
  transfer drives data-out low on all 16 clock cycles, where most-significant-bit first
  asks for the levels of \<open>00000011 00001110\<close>.
\<close>

theorem spi_trans_repeats_top_bit:
  "mosi_levels (trace (mcp2515_spi_trans
       (priv0\<lparr>spi_tx_buf := [INSTRUCTION_READ, CANSTAT] @ replicate 12 0\<rparr>) 2)) =
     replicate 16 False \<and>
   concat (map spec_msb_first [INSTRUCTION_READ, CANSTAT]) =
     [False, False, False, False, False, False, True, True,
      False, False, False, False, True, True, True, False]"
  by code_simp

text \<open>
  Claim C2 (error-state precedence). For every error-flags byte of a pass, whatever the
  state before and the interrupt flags, the link state after the pass is bus-off if
  \<open>EFLG_TXBO\<close> is set, else error-passive if \<open>EFLG_TXEP\<close> is set, else error-passive if
  \<open>EFLG_RXEP\<close> is set, else error-warning if \<open>EFLG_TXWAR\<close> is set, else error-warning if
  \<open>EFLG_RXWAR\<close> is set, else error-active. In particular, with \<open>EFLG_TXBO\<close> and
  \<open>EFLG_RXWAR\<close> both set (and any other flags) the state is bus-off.
\<close>

theorem ist_error_state_precedence:
  "can_state (snd (mcp2515_can_ist_body s intf0 eflag)) =
     (if eflag AND EFLG_TXBO \<noteq> 0 then CAN_STATE_BUS_OFF
      else if eflag AND EFLG_TXEP \<noteq> 0 then CAN_STATE_ERROR_PASSIVE
      else if eflag AND EFLG_RXEP \<noteq> 0 then CAN_STATE_ERROR_PASSIVE
      else if eflag AND EFLG_TXWAR \<noteq> 0 then CAN_STATE_ERROR_WARNING
      else if eflag AND EFLG_RXWAR \<noteq> 0 then CAN_STATE_ERROR_WARNING
      else CAN_STATE_ERROR_ACTIVE) \<and>
   can_state (snd (mcp2515_can_ist_body s intf0 (eflag OR EFLG_TXBO OR EFLG_RXWAR))) =
     CAN_STATE_BUS_OFF"
  using txbo_set [of eflag] by (simp add: ist_body_link ist_new_state_def)

text \<open>
  Claim C3 (transmit encoding of a standard frame). For the frame with identifier 0x123,
  no extended or remote flag, DLC 2 and data 0xAA, 0xBB (whatever the other six bytes of
  the frame's data array), and for every mailbox index, the buffer built by
  \<open>mcp2515_hw_tx\<close> is the load instruction, SIDH = 0x24, SIDL = 0x60, the two
  extended-identifier bytes (0x01 and 0x23, the low 16 bits of the identifier), the DLC
  byte 0x02, and the two data bytes. SIDL has the extended-ID-enable bit clear.
\<close>

theorem hw_tx_standard_0x123:
  "mcp2515_hw_tx_buf \<lparr>can_id = 0x123, can_dlc = 2, data = 0xAA # 0xBB # rest\<rparr> tx_buf_idx =
     Some [ucast (INSTRUCTION_LOAD_TXB tx_buf_idx), 0x24, 0x60, 0x01, 0x23, 0x02, 0xAA, 0xBB] \<and>
   (0x60 :: u8) AND push_bit SIDL_EXIDE_SHIFT 1 = 0"
  by (simp add: mcp2515_hw_tx_buf_def can_defs mailbox_defs)

text \<open>
  Claim C4 (extended identifier 0x1ABCDEF). For every frame with the extended flag whose
  29 identifier bits are 0x1ABCDEF, if the transmit encoder yields the buffer \<open>tx\<close>, then
  SIDL of \<open>tx\<close> has the IDE bit set, and the receive decoder applied to any register image
  with the same SIDH, SIDL, EID8 and EID0 bytes yields an extended frame whose 29
  identifier bits are exactly 0x1ABCDEF.
\<close>

theorem extended_0x1ABCDEF_roundtrip:
  assumes eff: "can_id frame AND CAN_EFF_FLAG \<noteq> 0"
    and cid: "can_id frame AND CAN_EFF_MASK = 0x1ABCDEF"
    and tx: "mcp2515_hw_tx_buf frame tx_buf_idx = Some tx"
    and rx: "rx ! RXBSIDH_OFF = tx ! TXBSIDH_OFF" "rx ! RXBSIDL_OFF = tx ! TXBSIDL_OFF"
            "rx ! RXBEID8_OFF = tx ! TXBEID8_OFF" "rx ! RXBEID0_OFF = tx ! TXBEID0_OFF"
  shows "tx ! TXBSIDL_OFF AND RXBSIDL_IDE \<noteq> 0 \<and>
         can_id (mcp2515_hw_rx_decode rx) AND CAN_EFF_FLAG \<noteq> 0 \<and>
         can_id (mcp2515_hw_rx_decode rx) AND CAN_EFF_MASK = 0x1ABCDEF"
proof -
  have hdr: "tx ! 1 = 0x0D" "tx ! 2 = 0x4B" "tx ! 3 = 0xCD" "tx ! 4 = 0xEF"
    using tx eff cid
    by (auto simp: mcp2515_hw_tx_buf_def Let_def mailbox_defs split: if_splits)
  have r: "rx ! 1 = 0x0D" "rx ! 2 = 0x4B" "rx ! 3 = 0xCD" "rx ! 4 = 0xEF"
    using rx hdr by (simp_all add: mailbox_defs)
  show ?thesis
    using hdr r
    by (simp add: mcp2515_hw_rx_decode_def Let_def mailbox_defs can_defs zero_frame_def)
qed

text \<open>The theorem of claim C4 at a concrete input.\<close>

theorem extended_0x1ABCDEF_roundtrip_witness:
  "can_id \<lparr>can_id = 0x81ABCDEF, can_dlc = 0, data = replicate 8 0\<rparr> AND CAN_EFF_FLAG \<noteq> 0 \<and>
   can_id \<lparr>can_id = 0x81ABCDEF, can_dlc = 0, data = replicate 8 0\<rparr> AND CAN_EFF_MASK = 0x1ABCDEF \<and>
   mcp2515_hw_tx_buf \<lparr>can_id = 0x81ABCDEF, can_dlc = 0, data = replicate 8 0\<rparr> 0 =
     Some [0x40, 0x0D, 0x4B, 0xCD, 0xEF, 0x00] \<and>
   can_id (mcp2515_hw_rx_decode [0, 0x0D, 0x4B, 0xCD, 0xEF, 0, 0, 0, 0, 0, 0, 0, 0, 0]) AND CAN_EFF_MASK =
     0x1ABCDEF"
  using extended_0x1ABCDEF_roundtrip [of "\<lparr>can_id = 0x81ABCDEF, can_dlc = 0, data = replicate 8 0\<rparr>" 0
      "[0x40, 0x0D, 0x4B, 0xCD, 0xEF, 0x00]" "[0, 0x0D, 0x4B, 0xCD, 0xEF, 0, 0, 0, 0, 0, 0, 0, 0, 0]"]
  by (simp add: mcp2515_hw_tx_buf_def can_defs mailbox_defs instruction_defs)

text \<open>
  Claim C5 (the data length code is clamped). For every 14-byte register image, whatever
  its DLC byte, the decoded frame's data length code is \<open>get_can_dlc\<close> of the low four
  bits of that byte and is at most 8; exactly that many bytes are copied from the image's
  data region into the (zeroed) data array of the frame, and the copy stays inside the
  image.
\<close>

theorem hw_rx_dlc_clamped:
  assumes "length buf = SPI_TRANSFER_BUF_LEN"
  shows "unat (can_dlc (mcp2515_hw_rx_decode buf)) \<le> CAN_FRAME_MAX_DATA_LEN \<and>
         can_dlc (mcp2515_hw_rx_decode buf) = get_can_dlc (buf ! RXBDLC_OFF AND RXBDLC_LEN_MASK) \<and>
         data (mcp2515_hw_rx_decode buf) =
           memcpy (replicate 8 0) (drop RXBDAT_OFF buf) (unat (can_dlc (mcp2515_hw_rx_decode buf))) \<and>
         take (unat (can_dlc (mcp2515_hw_rx_decode buf))) (data (mcp2515_hw_rx_decode buf)) =
           take (unat (can_dlc (mcp2515_hw_rx_decode buf))) (drop RXBDAT_OFF buf) \<and>
         drop (unat (can_dlc (mcp2515_hw_rx_decode buf))) (data (mcp2515_hw_rx_decode buf)) =
           replicate (8 - unat (can_dlc (mcp2515_hw_rx_decode buf))) 0 \<and>
         RXBDAT_OFF + unat (can_dlc (mcp2515_hw_rx_decode buf)) \<le> length buf"
proof -
  let ?dlc = "get_can_dlc (buf ! RXBDLC_OFF AND RXBDLC_LEN_MASK)"
  have le: "unat ?dlc \<le> 8"
    by (simp add: get_can_dlc_def min_def word_le_nat_alt)
  have dlc: "can_dlc (mcp2515_hw_rx_decode buf) = ?dlc"
    by (simp add: mcp2515_hw_rx_decode_def Let_def)
  have dat: "data (mcp2515_hw_rx_decode buf) = memcpy (replicate 8 0) (drop RXBDAT_OFF buf) (unat ?dlc)"
    by (simp add: mcp2515_hw_rx_decode_def Let_def zero_frame_def)
  have len: "unat ?dlc \<le> length (drop RXBDAT_OFF buf)"
    using le assms by (simp add: mailbox_defs)
  show ?thesis
    using le len assms unfolding dlc dat
    by (simp add: memcpy_def mailbox_defs)
qed

text \<open>The theorem of claim C5 at a concrete input.\<close>

theorem hw_rx_dlc_clamped_witness:
  "length ([0, 0, 0, 0, 0, 0x0F, 1, 2, 3, 4, 5, 6, 7, 8] :: u8 list) = SPI_TRANSFER_BUF_LEN \<and>
   can_dlc (mcp2515_hw_rx_decode [0, 0, 0, 0, 0, 0x0F, 1, 2, 3, 4, 5, 6, 7, 8]) = 8 \<and>
   data (mcp2515_hw_rx_decode [0, 0, 0, 0, 0, 0x0F, 1, 2, 3, 4, 5, 6, 7, 8]) =
     [1, 2, 3, 4, 5, 6, 7, 8]"
  using hw_rx_dlc_clamped [of "[0, 0, 0, 0, 0, 0x0F, 1, 2, 3, 4, 5, 6, 7, 8]"]
  by (simp add: mailbox_defs get_can_dlc_def memcpy_def)

text \<open>
  Claim C6 (backpressure). In every driver state whose pending-transmit slot is occupied
  (\<open>tx_skb\<close> is not null or \<open>tx_len\<close> is not zero), \<open>mcp2515_hard_start_xmit\<close> returns
  \<open>NETDEV_TX_BUSY\<close> at once: it does no input or output (the trace is unchanged) and
  leaves the whole state, in particular \<open>tx_skb\<close> and \<open>tx_len\<close>, as it was.
\<close>

theorem hard_start_xmit_busy:
  assumes "tx_skb s \<noteq> None \<or> tx_len s \<noteq> 0"
  shows "mcp2515_hard_start_xmit invalid skb s = (NETDEV_TX_BUSY, s) \<and>
         tx_skb (snd (mcp2515_hard_start_xmit invalid skb s)) = tx_skb s \<and>
         tx_len (snd (mcp2515_hard_start_xmit invalid skb s)) = tx_len s \<and>
         trace (snd (mcp2515_hard_start_xmit invalid skb s)) = trace s"
  using assms by (simp add: mcp2515_hard_start_xmit_def)

text \<open>The theorem of claim C6 at a concrete input.\<close>

theorem hard_start_xmit_busy_witness:
  "tx_skb (priv0\<lparr>tx_skb := Some zero_frame\<rparr>) \<noteq> None \<and>
   fst (mcp2515_hard_start_xmit (\<lambda>f. False) err_frame (priv0\<lparr>tx_skb := Some zero_frame\<rparr>)) =
     NETDEV_TX_BUSY \<and>
   tx_skb (snd (mcp2515_hard_start_xmit (\<lambda>f. False) err_frame (priv0\<lparr>tx_skb := Some zero_frame\<rparr>))) =
     Some zero_frame"
  using hard_start_xmit_busy [of "priv0\<lparr>tx_skb := Some zero_frame\<rparr>" "\<lambda>f. False" err_frame]
  by simp








text \<open>
  Claim C10 (MERRF and WAKIF are ignored). A pass of the handler does the same for the
  interrupt-flags byte read as for that byte with the message-error and wake bits cleared.
  When no other bit is set, the pass behaves as with no flag pending: it leaves the loop
  and delivers neither a frame nor an error notification. No clear mask written to the
  interrupt-flag register in any pass contains either bit, and when only these two bits
  are set no clear mask is written at all.
\<close>

theorem ist_ignores_merrf_wakif:
  "mcp2515_can_ist_body s intf0 eflag =
     mcp2515_can_ist_body s (intf0 AND NOT (CANINTF_MERRF OR CANINTF_WAKIF)) eflag \<and>
   (intf0 AND NOT (CANINTF_MERRF OR CANINTF_WAKIF) = 0 \<longrightarrow>
      mcp2515_can_ist_body s intf0 eflag = mcp2515_can_ist_body s 0 eflag \<and>
      fst (mcp2515_can_ist_body s intf0 eflag) \<and>
      delivered (trace (snd (mcp2515_can_ist_body s intf0 eflag))) = delivered (trace s)) \<and>
   (wf_priv s \<longrightarrow>
      (\<exists>W. spi_writes (trace (snd (mcp2515_can_ist_body s intf0 eflag))) = spi_writes (trace s) @ W \<and>
           list_all (\<lambda>bs. case canintf_clear_mask bs of
                             None \<Rightarrow> True
                           | Some m \<Rightarrow>
                               m AND (CANINTF_MERRF OR CANINTF_WAKIF) = 0 \<and>
                               intf0 AND NOT (CANINTF_MERRF OR CANINTF_WAKIF) \<noteq> 0) W))"
proof (intro conjI impI)
  have "mcp2515_can_ist_body s (intf0 AND (CANINTF_RX OR CANINTF_TX OR CANINTF_ERR)) eflag =
        mcp2515_can_ist_body s intf0 eflag"
    by (rule ist_body_masked)
  then show m: "mcp2515_can_ist_body s intf0 eflag =
     mcp2515_can_ist_body s (intf0 AND NOT (CANINTF_MERRF OR CANINTF_WAKIF)) eflag"
    by (simp add: care_mask)
  assume z: "intf0 AND NOT (CANINTF_MERRF OR CANINTF_WAKIF) = 0"
  then have z': "intf0 AND (CANINTF_RX OR CANINTF_TX OR CANINTF_ERR) = 0"
    by (simp add: care_mask)
  show "mcp2515_can_ist_body s intf0 eflag = mcp2515_can_ist_body s 0 eflag"
    using m by (simp only: z)
  show "fst (mcp2515_can_ist_body s intf0 eflag)"
    using z' by (rule ist_body_quiescent)
  show "delivered (trace (snd (mcp2515_can_ist_body s intf0 eflag))) = delivered (trace s)"
    using z' by (rule ist_body_quiescent)
next
  assume wf: "wf_priv s"
  let ?P = "\<lambda>bs. case canintf_clear_mask bs of
                   None \<Rightarrow> True
                 | Some m \<Rightarrow>
                     m AND (CANINTF_MERRF OR CANINTF_WAKIF) = 0 \<and>
                     intf0 AND NOT (CANINTF_MERRF OR CANINTF_WAKIF) \<noteq> 0"
  have "adds ?P s (snd (mcp2515_can_ist_body s intf0 eflag))"
  proof (rule ist_body_adds [OF wf])
    show "?P bs" if "length bs = SPI_TRANSFER_BUF_LEN" for bs
      using that by (simp add: clear_mask_long)
    show "?P [INSTRUCTION_BIT_MODIFY, CANINTF, k, 0]"
      if "k = ist_clear_intf (intf0 AND (CANINTF_RX OR CANINTF_TX OR CANINTF_ERR))" "k \<noteq> 0" for k
      using that clear_mask_zero
      by (auto simp: clear_mask_other clear_mask_bits care_mask)
    show "?P [INSTRUCTION_BIT_MODIFY, EFLG, eflag, 0]"
      by (simp add: clear_mask_other)
    show "?P [INSTRUCTION_WRITE, CANCTRL, CANCTRL_REQOP_SLEEP]"
      by (simp add: clear_mask_other)
  qed
  then show "\<exists>W. spi_writes (trace (snd (mcp2515_can_ist_body s intf0 eflag))) = spi_writes (trace s) @ W \<and>
           list_all ?P W"
    by (simp add: adds_def)
qed

text \<open>The theorem of claim C10 at a concrete input.\<close>

theorem ist_ignores_merrf_wakif_witness:
  "(0xC0 :: u8) AND NOT (CANINTF_MERRF OR CANINTF_WAKIF) = 0 \<and> wf_priv priv0 \<and>
   fst (mcp2515_can_ist_body priv0 0xC0 0) \<and>
   delivered (trace (snd (mcp2515_can_ist_body priv0 0xC0 0))) = [] \<and>
   mcp2515_can_ist_body priv0 0xC0 0 = mcp2515_can_ist_body priv0 0 0"
proof -
  have z: "(0xC0 :: u8) AND NOT (CANINTF_MERRF OR CANINTF_WAKIF) = 0"
    by (simp add: canintf_defs)
  from ist_ignores_merrf_wakif [where s = priv0 and ?intf0.0 = "0xC0" and eflag = 0] z
  have b1: "mcp2515_can_ist_body priv0 0xC0 0 = mcp2515_can_ist_body priv0 0 0"
    and b2: "fst (mcp2515_can_ist_body priv0 0xC0 0)"
    and b3: "delivered (trace (snd (mcp2515_can_ist_body priv0 0xC0 0))) = delivered (trace priv0)"
    by blast+
  have e: "delivered (trace priv0) = []"
    by (simp add: priv0_def)
  show ?thesis
    using z priv0_wf b1 b2 b3 [unfolded e] by (intro conjI)
qed

end
